theory Spec2Isabelle
  imports Main
begin

section \<open>Data model\<close>

text \<open>
  The relay's HTTP handlers (package api, files handle.go and stats.go) and the delay
  metrics recorder (package delaymetrics). Go strings are \<open>string\<close>, a Go error
  is its message, a slice is a list.
\<close>

text \<open>
  A value stored in a decoded JSON object (\<open>map[string]interface{}\<close>): the
  handlers only ever ask whether an entry is a string.
\<close>

datatype jvalue = JString string | JOther

text \<open>
  The dynamic type of \<open>activity.Object\<close> (an \<open>interface{}\<close>): the type
  switches of the source distinguish a string, a JSON object and anything else.
\<close>

datatype object = ObjString string | ObjMap "string \<rightharpoonup> jvalue" | ObjOther

text \<open>
  \<open>models.Activity\<close>, with the fields the handlers read or set. The declaration
  is in package models; the field names are the source's.
\<close>

record activity =
  Context :: "string list"
  ID :: string
  Actor :: string
  Type :: string
  Object :: object
  To :: "string list"
  Cc :: "string list"
  Published :: string

text \<open>\<open>models.Actor\<close>: handed through to the collaborators, never inspected.\<close>

record actor =
  actorID :: string
  actorInbox :: string

text \<open>The part of \<open>*url.URL\<close> the handlers read.\<close>

record url =
  Host :: string

text \<open>
  The part of \<open>*http.Request\<close> the handlers read: the method, the query
  parameters and the body.
\<close>

record request =
  Method :: string
  Query :: "string \<rightharpoonup> string"
  Body :: string

section \<open>Delay metrics (handle.go, recordDelayMetrics)\<close>

text \<open>
  \<open>time.Time\<close> is an instant in nanoseconds since the Unix epoch and
  \<open>time.Duration\<close> a count of nanoseconds in an int64. \<open>Time.Sub\<close> saturates
  at the largest and smallest Duration.
\<close>

definition maxDuration :: int where
  "maxDuration = 2 ^ 63 - 1"

definition minDuration :: int where
  "minDuration = - (2 ^ 63)"

definition timeSub :: "int \<Rightarrow> int \<Rightarrow> int" where
  "timeSub t u =
     (if t - u > maxDuration then maxDuration
      else if t - u < minDuration then minDuration
      else t - u)"

text \<open>
  \<open>delaymetrics.DelayRecord\<close>. \<open>DelaySeconds\<close> is a float64 in the source,
  \<open>Duration.Seconds()\<close>; here it is the Duration itself, in nanoseconds. The
  conversion is monotone and the two comparisons of the source, \<open>< 0\<close> and
  \<open>> 86400\<close>, hold of the float exactly when they hold of the nanosecond count
  against 0 and 86400 * 10^9.
\<close>

record DelayRecord =
  NoteID :: string
  CreatedAt :: int
  ReceivedAt :: int
  DelaySeconds :: int
  InstanceHost :: string

definition RFC3339 :: string where
  "RFC3339 = ''2006-01-02T15:04:05Z07:00''"

definition RFC3339Nano :: string where
  "RFC3339Nano = ''2006-01-02T15:04:05.999999999Z07:00''"

definition formats :: "string list" where
  "formats = [RFC3339, RFC3339Nano, ''2006-01-02T15:04:05.000Z'', ''2006-01-02T15:04:05Z'']"

text \<open>
  The loop over the formats: \<open>time.Parse\<close> (the Go library's, a parameter
  \<open>tp\<close> here: layout, then value) is tried in order and the first success ends
  the loop; when every format has failed, \<open>err\<close> is the last failure.
\<close>

fun parseCreatedAt :: "(string \<Rightarrow> string \<Rightarrow> int option) \<Rightarrow> string list \<Rightarrow> string \<Rightarrow> int option" where
  "parseCreatedAt tp [] s = None"
| "parseCreatedAt tp (f # fs) s =
     (case tp f s of Some t \<Rightarrow> Some t | None \<Rightarrow> parseCreatedAt tp fs s)"

definition secondsNs :: int where
  "secondsNs = 1000000000"

text \<open>
  \<open>recordDelayMetrics\<close>: the record handed to \<open>delaymetrics.RecordDelay\<close>, or
  \<open>None\<close> when the function returns before the call. \<open>activity\<close> is never nil
  in the handler; \<open>actorID\<close> is nil when \<open>url.Parse\<close> failed.
\<close>

definition recordDelayMetrics ::
  "(string \<Rightarrow> string \<Rightarrow> int option) \<Rightarrow> activity \<Rightarrow> url option \<Rightarrow> int \<Rightarrow> DelayRecord option" where
  "recordDelayMetrics tp a actorURL receivedAt =
     (case actorURL of
        None \<Rightarrow> None
      | Some u \<Rightarrow>
          let createdAtStr0 = (if Published a \<noteq> [] then Published a else []);
              createdAtStr =
                (case Object a of
                   ObjMap obj \<Rightarrow>
                     (if createdAtStr0 = [] then
                        (case obj ''published'' of
                           Some (JString published) \<Rightarrow> published
                         | _ \<Rightarrow> createdAtStr0)
                      else createdAtStr0)
                 | _ \<Rightarrow> createdAtStr0);
              objectID0 =
                (case Object a of
                   ObjMap obj \<Rightarrow>
                     (case obj ''id'' of Some (JString i) \<Rightarrow> i | _ \<Rightarrow> [])
                 | ObjString obj \<Rightarrow> obj
                 | ObjOther \<Rightarrow> [])
          in
          if createdAtStr = [] then None
          else
            let objectID = (if objectID0 = [] then ID a else objectID0) in
            (case parseCreatedAt tp formats createdAtStr of
               None \<Rightarrow> None
             | Some createdAt \<Rightarrow>
                 let delaySeconds = timeSub receivedAt createdAt in
                 if delaySeconds < 0 \<or> delaySeconds > 86400 * secondsNs then None
                 else Some \<lparr> NoteID = objectID, CreatedAt = createdAt,
                              ReceivedAt = receivedAt, DelaySeconds = delaySeconds,
                              InstanceHost = Host u \<rparr>))"

section \<open>The inbox handler (handle.go, handleInbox)\<close>

text \<open>
  The calls the handler makes to the relay's other functions, in the order it makes
  them. These functions, defined elsewhere in package api, change the membership store
  and enqueue the delivery jobs; the handler itself touches neither.
\<close>

datatype call =
    ExecuteRelayActivity activity actor string
  | ExecuteFollowing activity actor
  | ExecuteRejectRequest activity actor string
  | ExecuteUnfollowing activity actor
  | FinalizeMutuallyFollow activity actor string
  | FetchOriginalActivityFromURL string
  | ExecuteAnnounceActivity activity actor

text \<open>
  What the handler gets from outside: the relay actor's ID, the decoder passed as an
  argument, the Go library (\<open>url.Parse\<close>, \<open>time.Parse\<close>, the clock) and the
  results of the functions it calls. A function that returns a Go \<open>error\<close> returns
  \<open>None\<close> for nil and the message otherwise.
\<close>

record inbox_env =
  RelayActorID :: string
  activityDecoder :: "request \<Rightarrow> string + (activity \<times> actor \<times> string)"
  urlParse :: "string \<Rightarrow> url option"
  timeParse :: "string \<Rightarrow> string \<Rightarrow> int option"
  timeNow :: int
  isToMyFollower :: "string list \<Rightarrow> bool"
  isActorSubscribersOrFollowers :: "url option \<Rightarrow> bool"
  UnwrapInnerActivity :: "activity \<Rightarrow> string + activity"
  executeRelayActivity :: "activity \<Rightarrow> actor \<Rightarrow> string \<Rightarrow> string option"
  executeFollowing :: "activity \<Rightarrow> actor \<Rightarrow> string option"
  executeUnfollowing :: "activity \<Rightarrow> actor \<Rightarrow> string option"
  fetchOriginalActivityFromURL :: "string \<Rightarrow> string + (activity \<times> actor)"

text \<open>
  Modelled from the spec: \<open>contains\<close>, a helper of package api that is not in the
  sources. The spec (4.1) says the test is whether the activity's \<open>to\<close> or
  \<open>cc\<close>, a sequence of recipient URIs, contains the given URI.
\<close>

definition contains :: "string list \<Rightarrow> string \<Rightarrow> bool" where
  "contains entries key = (key \<in> set entries)"

definition asPublic :: string where
  "asPublic = ''https://www.w3.org/ns/activitystreams#Public''"

text \<open>
  What a branch of the handler leaves behind: the status written, the response body and
  the calls made.
\<close>

type_synonym reply = "nat \<times> string \<times> call list"

text \<open>Lines 141-148 and 233-240: the \<open>Follow\<close> case, the same in both branches.\<close>

definition caseFollow :: "inbox_env \<Rightarrow> activity \<Rightarrow> actor \<Rightarrow> reply" where
  "caseFollow env a ac =
     (case executeFollowing env a ac of
        Some err \<Rightarrow> (202, [], [ExecuteFollowing a ac, ExecuteRejectRequest a ac err])
      | None \<Rightarrow> (202, [], [ExecuteFollowing a ac]))"

text \<open>Lines 149-168 and 241-260: the \<open>Undo\<close> case, the same in both branches.\<close>

definition caseUndo :: "inbox_env \<Rightarrow> activity \<Rightarrow> actor \<Rightarrow> reply" where
  "caseUndo env a ac =
     (case UnwrapInnerActivity env a of
        Inl err \<Rightarrow> (202, [], [])
      | Inr innerActivity \<Rightarrow>
          if Type innerActivity = ''Follow'' then
            (case executeUnfollowing env innerActivity ac of
               Some err \<Rightarrow>
                 (202, [], [ExecuteUnfollowing innerActivity ac, ExecuteRejectRequest a ac err])
             | None \<Rightarrow> (202, [], [ExecuteUnfollowing innerActivity ac]))
          else (202, [], []))"

text \<open>Lines 169-202: the \<open>Accept\<close> and \<open>Reject\<close> cases of the LitePub branch.\<close>

definition caseFinalize :: "inbox_env \<Rightarrow> activity \<Rightarrow> actor \<Rightarrow> reply" where
  "caseFinalize env a ac =
     (case UnwrapInnerActivity env a of
        Inl err \<Rightarrow> (202, [], [])
      | Inr innerActivity \<Rightarrow>
          if Type innerActivity = ''Follow'' then
            (202, [], [FinalizeMutuallyFollow innerActivity ac (Type a)])
          else (202, [], []))"

text \<open>Lines 203-226: the \<open>Announce\<close> case of the LitePub branch.\<close>

definition caseAnnounce :: "inbox_env \<Rightarrow> activity \<Rightarrow> url option \<Rightarrow> reply" where
  "caseAnnounce env a actorURL =
     (if \<not> isActorSubscribersOrFollowers env actorURL then
        (401, ''to use the relay service, please follow in advance'', [])
      else
        (case Object a of
           ObjString innerObject \<Rightarrow>
             (case fetchOriginalActivityFromURL env innerObject of
                Inl err \<Rightarrow> (400, err, [FetchOriginalActivityFromURL innerObject])
              | Inr (origActivity, origActor) \<Rightarrow>
                  (202, [], [FetchOriginalActivityFromURL innerObject,
                             ExecuteAnnounceActivity origActivity origActor]))
         | _ \<Rightarrow> (202, [], [])))"

text \<open>Lines 120-135: the first case of the switch, "Mastodon Traditional Style".\<close>

definition mastodonStyle :: "inbox_env \<Rightarrow> activity \<Rightarrow> actor \<Rightarrow> string \<Rightarrow> reply" where
  "mastodonStyle env a ac bytes =
     (if Type a = ''Create'' \<or> Type a = ''Update'' \<or> Type a = ''Delete'' \<or> Type a = ''Move'' then
        (case executeRelayActivity env a ac bytes of
           Some err \<Rightarrow> (401, err, [ExecuteRelayActivity a ac bytes])
         | None \<Rightarrow> (202, [], [ExecuteRelayActivity a ac bytes]))
      else (202, [], []))"

text \<open>Lines 140-230: the second and third cases, "LitePub Relay Style".\<close>

definition litePubStyle :: "inbox_env \<Rightarrow> activity \<Rightarrow> actor \<Rightarrow> url option \<Rightarrow> reply" where
  "litePubStyle env a ac actorURL =
     (if Type a = ''Follow'' then caseFollow env a ac
      else if Type a = ''Undo'' then caseUndo env a ac
      else if Type a = ''Accept'' then caseFinalize env a ac
      else if Type a = ''Reject'' then caseFinalize env a ac
      else if Type a = ''Announce'' then caseAnnounce env a actorURL
      else (202, [], []))"

text \<open>Lines 231-264: the default case, "Follow, Unfollow Only".\<close>

definition followOnly :: "inbox_env \<Rightarrow> activity \<Rightarrow> actor \<Rightarrow> reply" where
  "followOnly env a ac =
     (if Type a = ''Follow'' then caseFollow env a ac
      else if Type a = ''Undo'' then caseUndo env a ac
      else (202, [], []))"

text \<open>
  The outcome of a request: the response, whether the inbox counter was incremented,
  the delay record handed to the recorder, and the calls made.
\<close>

record outcome =
  status :: nat
  body :: string
  inboxCounted :: bool
  delay :: "DelayRecord option"
  calls :: "call list"

definition respond :: "bool \<Rightarrow> DelayRecord option \<Rightarrow> reply \<Rightarrow> outcome" where
  "respond counted d r =
     \<lparr> status = fst r, body = fst (snd r), inboxCounted = counted, delay = d,
       calls = snd (snd r) \<rparr>"

text \<open>
  \<open>handleInbox\<close>. The switch on the addressing is a chain of conditions tried in the
  source's order; the second case falls through into the third case's body, so the two
  share it.
\<close>

definition handleInbox :: "inbox_env \<Rightarrow> request \<Rightarrow> outcome" where
  "handleInbox env req =
     (if Method req = ''POST'' then
        (case activityDecoder env req of
           Inl err \<Rightarrow> respond True None (400, [], [])
         | Inr (a, ac, bytes) \<Rightarrow>
             let actorURL = urlParse env (Actor a);
                 d = recordDelayMetrics (timeParse env) a actorURL (timeNow env) in
             if contains (To a) asPublic \<or> contains (Cc a) asPublic then
               respond True d (mastodonStyle env a ac bytes)
             else if contains (To a) (RelayActorID env) \<or> contains (Cc a) (RelayActorID env) then
               respond True d (litePubStyle env a ac actorURL)
             else if isToMyFollower env (To a) \<or> isToMyFollower env (Cc a) then
               respond True d (litePubStyle env a ac actorURL)
             else
               respond True d (followOnly env a ac))
      else respond False None (405, [], []))"

section \<open>The addressing dialects (spec 4.1)\<close>

text \<open>
  The classifier as the spec words it: three dialects, decided in a fixed order. It is
  compared below with the switch of \<open>handleInbox\<close>.
\<close>

datatype dialect = PublicBroadcast | RelayDirected | Unaddressed

definition classify :: "inbox_env \<Rightarrow> activity \<Rightarrow> dialect" where
  "classify env a =
     (if asPublic \<in> set (To a) \<union> set (Cc a) then PublicBroadcast
      else if RelayActorID env \<in> set (To a) \<union> set (Cc a)
            \<or> isToMyFollower env (To a) \<or> isToMyFollower env (Cc a) then RelayDirected
      else Unaddressed)"

text \<open>What the handler does with a decoded activity of a given dialect.\<close>

definition routed :: "inbox_env \<Rightarrow> dialect \<Rightarrow> activity \<Rightarrow> actor \<Rightarrow> string \<Rightarrow> reply" where
  "routed env dl a ac bytes =
     (case dl of
        PublicBroadcast \<Rightarrow> mastodonStyle env a ac bytes
      | RelayDirected \<Rightarrow> litePubStyle env a ac (urlParse env (Actor a))
      | Unaddressed \<Rightarrow> followOnly env a ac)"

section \<open>Administrative unfollow (handle.go, handleAdminUnfollow)\<close>

text \<open>
  \<open>models.Subscriber\<close> and \<open>models.Follower\<close>: two structs with the same four
  fields, as far as the handler reads them.
\<close>

record subscriber =
  Domain :: string
  InboxURL :: string
  ActivityID :: string
  ActorID :: string

type_synonym follower = subscriber

text \<open>
  The bytes \<open>json.Marshal\<close> makes of \<open>activity.GenerateReply(RelayActor, activity,
  t)\<close>. Both functions are defined outside package api, so a payload records what
  the reply is generated from: the activity and the reply type.
\<close>

datatype payload = GenerateReply activity string

datatype admin_call =
    EnqueueRegisterActivity string payload
  | DelSubscriber string
  | DelFollower string

text \<open>The JSON bodies the handler encodes.\<close>

datatype admin_body = NoBody | ErrorBody string | SuccessBody string

text \<open>
  What the handler gets from outside: the relay actor's ID, the JSON decoder of the
  request body (\<open>None\<close> when it fails, the \<open>domain\<close> field otherwise) and the
  two lookups of the relay state.
\<close>

record admin_env =
  adminRelayActorID :: string
  decodeDomain :: "string \<Rightarrow> string option"
  SelectSubscriber :: "string \<Rightarrow> subscriber option"
  SelectFollower :: "string \<Rightarrow> follower option"

definition handleAdminUnfollow :: "admin_env \<Rightarrow> request \<Rightarrow> nat \<times> admin_body \<times> admin_call list" where
  "handleAdminUnfollow env req =
     (if Method req \<noteq> ''POST'' then (405, NoBody, [])
      else
        (case decodeDomain env (Body req) of
           None \<Rightarrow> (400, ErrorBody ''invalid request body'', [])
         | Some domain \<Rightarrow>
             if domain = [] then (400, ErrorBody ''domain required'', [])
             else
               (case SelectSubscriber env domain of
                  Some sub \<Rightarrow>
                    let a = \<lparr> Context = [''https://www.w3.org/ns/activitystreams'',
                                           ''https://w3id.org/security/v1''],
                              ID = ActivityID sub, Actor = ActorID sub, Type = ''Follow'',
                              Object = ObjString ''https://www.w3.org/ns/activitystreams#Public'',
                              To = [], Cc = [], Published = [] \<rparr>
                    in (200, SuccessBody ''subscriber'',
                        [EnqueueRegisterActivity (InboxURL sub) (GenerateReply a ''Reject''),
                         DelSubscriber (Domain sub)])
                | None \<Rightarrow>
                    (case SelectFollower env domain of
                       Some fol \<Rightarrow>
                         let a = \<lparr> Context = [''https://www.w3.org/ns/activitystreams'',
                                                ''https://w3id.org/security/v1''],
                                   ID = ActivityID fol, Actor = ActorID fol, Type = ''Follow'',
                                   Object = ObjString (adminRelayActorID env),
                                   To = [], Cc = [], Published = [] \<rparr>
                         in (200, SuccessBody ''follower'',
                             [EnqueueRegisterActivity (InboxURL fol) (GenerateReply a ''Reject''),
                              DelFollower (Domain fol)])
                     | None \<Rightarrow>
                         (404, ErrorBody ''Domain not found in subscribers or followers'', [])))))"

section \<open>Delivery statistics (stats.go)\<close>

text \<open>
  Go's \<open>int\<close> and \<open>int64\<close> are 64-bit two's complement: \<open>int64\<close> wraps a
  mathematical result into the range, and \<open>quot\<close> is Go's division, which truncates
  towards zero.
\<close>

definition int64 :: "int \<Rightarrow> int" where
  "int64 x = (x + 2 ^ 63) mod 2 ^ 64 - 2 ^ 63"

definition quot :: "int \<Rightarrow> int \<Rightarrow> int" where
  "quot a b = (if (a < 0) \<noteq> (b < 0) then - (\<bar>a\<bar> div \<bar>b\<bar>) else \<bar>a\<bar> div \<bar>b\<bar>)"

record DeliveryStats =
  Timestamp :: int
  Inbox :: int
  Outbox :: int

record StatsResponse =
  Current :: DeliveryStats
  History :: "DeliveryStats list"

text \<open>
  What the statistics code gets from outside: the clock (\<open>time.Now().Unix()\<close>), the
  counters (\<open>RedisClient.Get(ctx, key).Int64()\<close> with the error dropped, so 0 when
  the key is missing), and the Go library's \<open>strconv.FormatInt\<close> in base 10,
  \<open>strconv.Atoi\<close> and \<open>json.Marshal\<close>.
\<close>

record stats_env =
  nowUnix :: int
  redisGetInt64 :: "string \<Rightarrow> int"
  FormatInt :: "int \<Rightarrow> string"
  Atoi :: "string \<Rightarrow> int option"
  jsonMarshal :: "StatsResponse \<Rightarrow> string option"

text \<open>
  The loop of \<open>GetDeliveryStats\<close>, \<open>for i := buckets - 1; i >= 0; i--\<close>, with
  the history built so far.
\<close>

function historyLoop :: "stats_env \<Rightarrow> int \<Rightarrow> int \<Rightarrow> DeliveryStats list \<Rightarrow> DeliveryStats list" where
  "historyLoop env currentBucket i history =
     (if i \<ge> 0 then
        let bucket = int64 (currentBucket - int64 (int64 (i * 60)));
            inboxKey = ''relay:stats:inbox:'' @ FormatInt env bucket;
            outboxKey = ''relay:stats:outbox:'' @ FormatInt env bucket;
            inbox = redisGetInt64 env inboxKey;
            outbox = redisGetInt64 env outboxKey
        in historyLoop env currentBucket (int64 (i - 1))
             (history @ [\<lparr> Timestamp = bucket, Inbox = inbox, Outbox = outbox \<rparr>])
      else history)"
  by pat_completeness auto
termination
proof (relation "measure (\<lambda>(env, currentBucket, i, history). nat (i + 2 ^ 63 + 1))", goal_cases)
  case 1
  show ?case by simp
next
  case (2 env currentBucket i history)
  have lo: "0 \<le> (i - 1 + 2 ^ 63) mod (2 ^ 64 :: int)"
    by simp
  have hi: "(i - 1 + 2 ^ 63) mod (2 ^ 64 :: int) \<le> i - 1 + 2 ^ 63"
    using 2(1) by (intro zmod_le_nonneg_dividend) simp
  show ?case
    using lo hi 2(1) by (simp add: int64_def)
qed

declare historyLoop.simps [simp del]

definition GetDeliveryStats :: "stats_env \<Rightarrow> int \<Rightarrow> StatsResponse" where
  "GetDeliveryStats env hours =
     (let currentBucket = int64 (quot (nowUnix env) 60 * 60);
          inboxTotal = redisGetInt64 env ''relay:stats:inbox:total'';
          outboxTotal = redisGetInt64 env ''relay:stats:outbox:total'';
          current = \<lparr> Timestamp = nowUnix env, Inbox = inboxTotal, Outbox = outboxTotal \<rparr>;
          buckets = int64 (hours * 60)
      in \<lparr> Current = current,
           History = historyLoop env currentBucket (int64 (buckets - 1)) [] \<rparr>)"

text \<open>
  Lines 104-111 of \<open>handleDeliveryStats\<close>: the \<open>hours\<close> parameter, read with
  \<open>request.URL.Query().Get("hours")\<close>, which is empty when the parameter is missing.
\<close>

definition queryHours :: "stats_env \<Rightarrow> request \<Rightarrow> int" where
  "queryHours env req =
     (let hoursStr = (case Query req ''hours'' of None \<Rightarrow> [] | Some v \<Rightarrow> v) in
      if hoursStr \<noteq> [] then
        (case Atoi env hoursStr of
           Some h \<Rightarrow> if h > 0 \<and> h \<le> 24 then h else 1
         | None \<Rightarrow> 1)
      else 1)"

definition handleDeliveryStats :: "stats_env \<Rightarrow> request \<Rightarrow> nat \<times> string" where
  "handleDeliveryStats env req =
     (if Method req \<noteq> ''GET'' then (400, [])
      else
        let hours = queryHours env req;
            stats = GetDeliveryStats env hours
        in (case jsonMarshal env stats of
              None \<Rightarrow> (500, [])
            | Some response \<Rightarrow> (200, response)))"

section \<open>Sample inputs\<close>

text \<open>Concrete requests and surroundings, on which the theorems below are run.\<close>

definition relayID :: string where
  "relayID = ''https://relay.example/actor''"

definition bob :: actor where
  "bob = \<lparr> actorID = ''https://a.example/users/bob'', actorInbox = ''https://a.example/inbox'' \<rparr>"

definition sampleActivity :: "string \<Rightarrow> string list \<Rightarrow> object \<Rightarrow> activity" where
  "sampleActivity t recipients obj =
     \<lparr> Context = [], ID = ''f1'', Actor = ''https://a.example/users/bob'', Type = t,
       Object = obj, To = recipients, Cc = [], Published = [] \<rparr>"

definition sampleEnv :: "activity \<Rightarrow> inbox_env" where
  "sampleEnv a =
     \<lparr> RelayActorID = relayID,
       activityDecoder = (\<lambda>r. if Body r = [] then Inl ''empty body'' else Inr (a, bob, Body r)),
       urlParse = (\<lambda>s. Some \<lparr> Host = ''a.example'' \<rparr>),
       timeParse = (\<lambda>f s. None),
       timeNow = 0,
       isToMyFollower = (\<lambda>xs. False),
       isActorSubscribersOrFollowers = (\<lambda>u. False),
       UnwrapInnerActivity = (\<lambda>x. Inl ''can not assert type''),
       executeRelayActivity = (\<lambda>x ac b. None),
       executeFollowing = (\<lambda>x ac. None),
       executeUnfollowing = (\<lambda>x ac. None),
       fetchOriginalActivityFromURL = (\<lambda>u. Inl ''not found'') \<rparr>"

definition postReq :: request where
  "postReq = \<lparr> Method = ''POST'', Query = Map.empty, Body = ''{}'' \<rparr>"

text \<open>A Follow sent to the relay actor, and surroundings in which its admission fails.\<close>

definition followAct :: activity where
  "followAct = sampleActivity ''Follow'' [relayID] (ObjString relayID)"

definition blockedEnv :: inbox_env where
  "blockedEnv =
     (sampleEnv followAct)\<lparr> executeFollowing := (\<lambda>x ac. Some ''this domain is blocked'') \<rparr>"

text \<open>
  An Announce of a note by URI, sent to the relay actor by a member; the note's origin
  answers in \<open>memberEnv\<close> and does not in \<open>unreachableEnv\<close>.
\<close>

definition announceAct :: activity where
  "announceAct = sampleActivity ''Announce'' [relayID] (ObjString ''https://b.example/notes/1'')"

definition noteAct :: activity where
  "noteAct =
     \<lparr> Context = [], ID = ''https://b.example/notes/1/activity'',
       Actor = ''https://b.example/users/alice'', Type = ''Create'', Object = ObjOther,
       To = [asPublic], Cc = [], Published = [] \<rparr>"

definition alice :: actor where
  "alice = \<lparr> actorID = ''https://b.example/users/alice'', actorInbox = ''https://b.example/inbox'' \<rparr>"

definition memberEnv :: inbox_env where
  "memberEnv =
     (sampleEnv announceAct)\<lparr>
       isActorSubscribersOrFollowers := (\<lambda>u. True),
       fetchOriginalActivityFromURL :=
         (\<lambda>u. if u = ''https://b.example/notes/1'' then Inr (noteAct, alice)
              else Inl ''not found'') \<rparr>"

definition unreachableEnv :: inbox_env where
  "unreachableEnv = (sampleEnv announceAct)\<lparr> isActorSubscribersOrFollowers := (\<lambda>u. True) \<rparr>"

text \<open>An Undo whose object is not a JSON object, so that unwrapping it fails.\<close>

definition undoAct :: activity where
  "undoAct = sampleActivity ''Undo'' [relayID] (ObjString ''f1'')"

text \<open>A Like addressed to the public audience, and an Accept addressed to nobody.\<close>

definition likeAct :: activity where
  "likeAct = sampleActivity ''Like'' [asPublic] (ObjString ''https://b.example/notes/1'')"

definition acceptAct :: activity where
  "acceptAct = sampleActivity ''Accept'' [] ObjOther"

text \<open>
  An Accept of the relay's own Follow, sent to the relay actor, and a Create addressed
  to the public audience.
\<close>

definition acceptRelayAct :: activity where
  "acceptRelayAct = sampleActivity ''Accept'' [relayID] ObjOther"

definition handshakeEnv :: inbox_env where
  "handshakeEnv = (sampleEnv acceptRelayAct)\<lparr> UnwrapInnerActivity := (\<lambda>x. Inr followAct) \<rparr>"

definition createAct :: activity where
  "createAct = sampleActivity ''Create'' [asPublic] ObjOther"

text \<open>
  A Create addressed to the public audience whose object carries an id and a
  \<open>published\<close> timestamp, received five seconds after it was published.
\<close>

definition noteObject :: "string \<rightharpoonup> jvalue" where
  "noteObject =
     [''id'' \<mapsto> JString ''https://a.example/notes/9'',
      ''published'' \<mapsto> JString ''2024-01-01T00:00:00Z'']"

definition publishedAct :: activity where
  "publishedAct = sampleActivity ''Create'' [asPublic] (ObjMap noteObject)"

definition clockEnv :: inbox_env where
  "clockEnv =
     (sampleEnv publishedAct)\<lparr>
       timeParse :=
         (\<lambda>f s. if f = RFC3339 \<and> s = ''2024-01-01T00:00:00Z''
                then Some (1704067200 * secondsNs) else None),
       timeNow := 1704067205 * secondsNs \<rparr>"

definition publishedRecord :: DelayRecord where
  "publishedRecord =
     \<lparr> NoteID = ''https://a.example/notes/9'', CreatedAt = 1704067200 * secondsNs,
       ReceivedAt = 1704067205 * secondsNs, DelaySeconds = 5 * secondsNs,
       InstanceHost = ''a.example'' \<rparr>"

text \<open>A relay state with one subscriber and one follower, and unfollow requests.\<close>

definition subRecord :: subscriber where
  "subRecord =
     \<lparr> Domain = ''sub.example'', InboxURL = ''https://sub.example/inbox'',
       ActivityID = ''https://sub.example/follows/1'', ActorID = ''https://sub.example/actor'' \<rparr>"

definition folRecord :: follower where
  "folRecord =
     \<lparr> Domain = ''fol.example'', InboxURL = ''https://fol.example/inbox'',
       ActivityID = ''https://fol.example/follows/7'', ActorID = ''https://fol.example/relay'' \<rparr>"

definition adminEnv :: admin_env where
  "adminEnv =
     \<lparr> adminRelayActorID = relayID,
       decodeDomain = (\<lambda>b. if b = ''{'' then None else Some b),
       SelectSubscriber = (\<lambda>d. if d = ''sub.example'' then Some subRecord else None),
       SelectFollower = (\<lambda>d. if d = ''fol.example'' then Some folRecord else None) \<rparr>"

definition adminReq :: "string \<Rightarrow> request" where
  "adminReq d = \<lparr> Method = ''POST'', Query = Map.empty, Body = d \<rparr>"

text \<open>A statistics request at 2024-01-01 00:02:05 UTC.\<close>

definition statsEnv :: stats_env where
  "statsEnv =
     \<lparr> nowUnix = 1704067325,
       redisGetInt64 = (\<lambda>k. 0),
       FormatInt = (\<lambda>n. if n = 1704067320 then ''1704067320'' else ''0''),
       Atoi = (\<lambda>s. if s = ''2'' then Some 2 else if s = ''48'' then Some 48 else None),
       jsonMarshal = (\<lambda>r. Some ''{}'') \<rparr>"

definition statsReq :: "string \<Rightarrow> request" where
  "statsReq h = \<lparr> Method = ''GET'', Query = [''hours'' \<mapsto> h], Body = [] \<rparr>"

text \<open>
  A Follow whose \<open>to\<close> holds the public-audience URI, in surroundings where its
  admission would fail; a Follow and an Undo addressed to nobody, the Undo wrapping the
  sample Follow.
\<close>

definition publicFollowAct :: activity where
  "publicFollowAct = sampleActivity ''Follow'' [asPublic] (ObjString asPublic)"

definition publicBlockedEnv :: inbox_env where
  "publicBlockedEnv =
     (sampleEnv publicFollowAct)\<lparr>
       executeFollowing := (\<lambda>x ac. Some ''this domain is blocked'') \<rparr>"

definition plainFollowAct :: activity where
  "plainFollowAct = sampleActivity ''Follow'' [] (ObjString asPublic)"

definition plainUndoAct :: activity where
  "plainUndoAct = sampleActivity ''Undo'' [] ObjOther"

definition undoEnv :: inbox_env where
  "undoEnv = (sampleEnv plainUndoAct)\<lparr> UnwrapInnerActivity := (\<lambda>x. Inr followAct) \<rparr>"

section \<open>Theorems\<close>

lemma handleInbox_routed:
  assumes "Method req = ''POST''" and "activityDecoder env req = Inr (a, ac, bytes)"
  shows "handleInbox env req =
         respond True (recordDelayMetrics (timeParse env) a (urlParse env (Actor a)) (timeNow env))
           (routed env (classify env a) a ac bytes)"
  using assms
  by (simp add: handleInbox_def classify_def routed_def contains_def Let_def)

lemmas sample_simps =
  sampleEnv_def sampleActivity_def postReq_def bob_def relayID_def asPublic_def

text \<open>
  C1. Every decoded activity is handled by exactly one of the three branches of the
  switch, the one its dialect names, and the dialect is decided in a fixed order: the
  public-audience URI in \<open>to\<close> or \<open>cc\<close> gives Public-Broadcast whatever else is
  there; failing that, the relay actor's ID or a follower's address in \<open>to\<close> or
  \<open>cc\<close> gives Relay-Directed; everything else is Unaddressed. \<open>classify\<close> is a
  function into a three-valued type, so each activity has one dialect and only one.
\<close>

theorem inbox_classification:
  assumes "Method req = ''POST''" and "activityDecoder env req = Inr (a, ac, bytes)"
  shows "handleInbox env req =
           respond True
             (recordDelayMetrics (timeParse env) a (urlParse env (Actor a)) (timeNow env))
             (routed env (classify env a) a ac bytes)
         \<and> (classify env a = PublicBroadcast \<longleftrightarrow>
              contains (To a) asPublic \<or> contains (Cc a) asPublic)
         \<and> (classify env a = RelayDirected \<longleftrightarrow>
              \<not> (contains (To a) asPublic \<or> contains (Cc a) asPublic)
              \<and> (contains (To a) (RelayActorID env) \<or> contains (Cc a) (RelayActorID env)
                 \<or> isToMyFollower env (To a) \<or> isToMyFollower env (Cc a)))
         \<and> (classify env a = Unaddressed \<longleftrightarrow>
              \<not> (contains (To a) asPublic \<or> contains (Cc a) asPublic)
              \<and> \<not> (contains (To a) (RelayActorID env) \<or> contains (Cc a) (RelayActorID env)
                 \<or> isToMyFollower env (To a) \<or> isToMyFollower env (Cc a)))"
proof -
  have "handleInbox env req =
           respond True
             (recordDelayMetrics (timeParse env) a (urlParse env (Actor a)) (timeNow env))
             (routed env (classify env a) a ac bytes)"
    using assms by (rule handleInbox_routed)
  moreover have "classify env a = PublicBroadcast \<longleftrightarrow>
      contains (To a) asPublic \<or> contains (Cc a) asPublic"
    by (simp add: classify_def contains_def)
  moreover have "classify env a = RelayDirected \<longleftrightarrow>
      \<not> (contains (To a) asPublic \<or> contains (Cc a) asPublic)
      \<and> (contains (To a) (RelayActorID env) \<or> contains (Cc a) (RelayActorID env)
         \<or> isToMyFollower env (To a) \<or> isToMyFollower env (Cc a))"
    by (simp add: classify_def contains_def)
  moreover have "classify env a = Unaddressed \<longleftrightarrow>
      \<not> (contains (To a) asPublic \<or> contains (Cc a) asPublic)
      \<and> \<not> (contains (To a) (RelayActorID env) \<or> contains (Cc a) (RelayActorID env)
         \<or> isToMyFollower env (To a) \<or> isToMyFollower env (Cc a))"
    by (simp add: classify_def contains_def)
  ultimately show ?thesis by blast
qed

text \<open>
  A Create addressed to the relay actor and to the public audience at once is
  Public-Broadcast, and is relayed.
\<close>

theorem inbox_classification_witness:
  "classify (sampleEnv (sampleActivity ''Create'' [relayID, asPublic] ObjOther))
       (sampleActivity ''Create'' [relayID, asPublic] ObjOther) = PublicBroadcast
   \<and> calls (handleInbox (sampleEnv (sampleActivity ''Create'' [relayID, asPublic] ObjOther)) postReq) =
       [ExecuteRelayActivity (sampleActivity ''Create'' [relayID, asPublic] ObjOther) bob ''{}'']
   \<and> status (handleInbox (sampleEnv (sampleActivity ''Create'' [relayID, asPublic] ObjOther)) postReq) = 202"
  using inbox_classification [of postReq "sampleEnv (sampleActivity ''Create'' [relayID, asPublic] ObjOther)"
      "sampleActivity ''Create'' [relayID, asPublic] ObjOther" bob "''{}''"]
  by (simp add: sample_simps contains_def routed_def respond_def mastodonStyle_def)

lemma decoded_cases:
  assumes "Method req = ''POST''" and "activityDecoder env req = Inr (a, ac, bytes)"
  shows "status (handleInbox env req) = fst (routed env (classify env a) a ac bytes)"
    and "body (handleInbox env req) = fst (snd (routed env (classify env a) a ac bytes))"
    and "calls (handleInbox env req) = snd (snd (routed env (classify env a) a ac bytes))"
  using handleInbox_routed [OF assms] by (simp_all add: respond_def)

lemmas branch_defs =
  routed_def mastodonStyle_def litePubStyle_def followOnly_def
  caseFollow_def caseUndo_def caseFinalize_def caseAnnounce_def

lemmas inbox_samples =
  sample_simps followAct_def blockedEnv_def announceAct_def noteAct_def alice_def
  memberEnv_def unreachableEnv_def undoAct_def likeAct_def acceptAct_def
  acceptRelayAct_def handshakeEnv_def createAct_def
  publicFollowAct_def publicBlockedEnv_def plainFollowAct_def plainUndoAct_def undoEnv_def

text \<open>
  C2, as amended. The response of the inbox endpoint, for every request: 405 for a
  method other than POST; 400 with an empty body when decoding fails; for a decoded
  activity, 401 with the error text when a Public-Broadcast Create, Update, Delete or
  Move cannot be relayed and when a Relay-Directed Announce comes from a non-member,
  400 with the error text when a member's Announce names an object that cannot be
  fetched, and 202 with an empty body in every other case. A Follow is answered 202
  whether its admission succeeds or fails.
\<close>

theorem inbox_response:
  "(status (handleInbox env req), body (handleInbox env req)) =
     (if Method req \<noteq> ''POST'' then (405, [])
      else
        (case activityDecoder env req of
           Inl err \<Rightarrow> (400, [])
         | Inr (a, ac, bytes) \<Rightarrow>
             (case classify env a of
                PublicBroadcast \<Rightarrow>
                  (if Type a = ''Create'' \<or> Type a = ''Update'' \<or> Type a = ''Delete''
                      \<or> Type a = ''Move'' then
                     (case executeRelayActivity env a ac bytes of
                        Some err \<Rightarrow> (401, err)
                      | None \<Rightarrow> (202, []))
                   else (202, []))
              | RelayDirected \<Rightarrow>
                  (if Type a = ''Announce'' then
                     (if isActorSubscribersOrFollowers env (urlParse env (Actor a)) then
                        (case Object a of
                           ObjString u \<Rightarrow>
                             (case fetchOriginalActivityFromURL env u of
                                Inl err \<Rightarrow> (400, err)
                              | Inr orig \<Rightarrow> (202, []))
                         | _ \<Rightarrow> (202, []))
                      else (401, ''to use the relay service, please follow in advance''))
                   else (202, []))
              | Unaddressed \<Rightarrow> (202, []))))"
proof (cases "Method req = ''POST''")
  case False
  then show ?thesis by (simp add: handleInbox_def respond_def)
next
  case post: True
  show ?thesis
  proof (cases "activityDecoder env req")
    case (Inl err)
    with post show ?thesis by (simp add: handleInbox_def respond_def)
  next
    case (Inr t)
    obtain a ac bytes where t: "t = (a, ac, bytes)" by (cases t) auto
    have dec: "activityDecoder env req = Inr (a, ac, bytes)"
      using Inr t by simp
    show ?thesis
      using post dec
      by (cases "classify env a")
         (auto simp add: decoded_cases [OF post dec] branch_defs
           split: option.splits sum.splits object.splits)
  qed
qed

text \<open>The sample Follow, in surroundings where its admission fails, is answered 202.\<close>

theorem inbox_response_witness:
  "(status (handleInbox blockedEnv postReq), body (handleInbox blockedEnv postReq)) = (202, [])"
  using inbox_response [of blockedEnv postReq]
  by (simp add: inbox_samples classify_def)

text \<open>
  C2 as stated fails: a Follow whose admission fails is answered 202 with an empty body,
  not 401 with the error text; and a member's Announce whose object cannot be fetched,
  a decoded activity that passes the membership check, is answered 400, not 202.
\<close>

theorem inbox_response_counterexample:
  "Method postReq = ''POST''
   \<and> activityDecoder blockedEnv postReq = Inr (followAct, bob, ''{}'')
   \<and> executeFollowing blockedEnv followAct bob = Some ''this domain is blocked''
   \<and> status (handleInbox blockedEnv postReq) = 202
   \<and> body (handleInbox blockedEnv postReq) = []
   \<and> activityDecoder unreachableEnv postReq = Inr (announceAct, bob, ''{}'')
   \<and> isActorSubscribersOrFollowers unreachableEnv (urlParse unreachableEnv (Actor announceAct))
   \<and> status (handleInbox unreachableEnv postReq) = 400"
  by (simp add: inbox_samples handleInbox_def respond_def contains_def branch_defs)

text \<open>
  C3. A Relay-Directed Announce from an actor who is neither subscriber nor follower
  makes no call at all (so no delivery job) and is answered 401. From a member, with a
  bare URI as object: the original activity is fetched once, before anything else; the
  activity and actor the fetch returns, not the Announce and its sender, are what is
  handed to \<open>executeAnnounceActivity\<close>, which fans out to the subscribers and
  followers, and the answer is 202. When the fetch fails there is no original activity:
  nothing is handed on and the answer is 400. An object that is not a string is
  skipped.
\<close>

theorem announce_relay_directed:
  assumes "Method req = ''POST''" and "activityDecoder env req = Inr (a, ac, bytes)"
    and "classify env a = RelayDirected" and "Type a = ''Announce''"
  shows "(if \<not> isActorSubscribersOrFollowers env (urlParse env (Actor a)) then
            calls (handleInbox env req) = [] \<and> status (handleInbox env req) = 401
            \<and> body (handleInbox env req) = ''to use the relay service, please follow in advance''
          else
            (case Object a of
               ObjString u \<Rightarrow>
                 (case fetchOriginalActivityFromURL env u of
                    Inr (origActivity, origActor) \<Rightarrow>
                      calls (handleInbox env req) =
                        [FetchOriginalActivityFromURL u,
                         ExecuteAnnounceActivity origActivity origActor]
                      \<and> status (handleInbox env req) = 202
                  | Inl err \<Rightarrow>
                      calls (handleInbox env req) = [FetchOriginalActivityFromURL u]
                      \<and> status (handleInbox env req) = 400 \<and> body (handleInbox env req) = err)
             | _ \<Rightarrow> calls (handleInbox env req) = [] \<and> status (handleInbox env req) = 202))"
  using assms(3,4)
  by (simp add: decoded_cases [OF assms(1,2)] branch_defs split: object.splits sum.splits)

text \<open>The sample Announce from a member: one fetch, then the fetched note is fanned out.\<close>

theorem announce_relay_directed_witness:
  "calls (handleInbox memberEnv postReq) =
      [FetchOriginalActivityFromURL ''https://b.example/notes/1'',
       ExecuteAnnounceActivity noteAct alice]
   \<and> status (handleInbox memberEnv postReq) = 202"
  using announce_relay_directed [of postReq memberEnv announceAct bob "''{}''"]
  by (simp add: inbox_samples classify_def)

text \<open>
  C4. An Undo, Accept or Reject whose inner activity cannot be unwrapped is answered 202
  with an empty body and makes no call, in every dialect: nothing reaches the
  membership store.
\<close>

theorem unwrap_failure_noop:
  assumes "Method req = ''POST''" and "activityDecoder env req = Inr (a, ac, bytes)"
    and "Type a = ''Undo'' \<or> Type a = ''Accept'' \<or> Type a = ''Reject''"
    and "UnwrapInnerActivity env a = Inl err"
  shows "status (handleInbox env req) = 202 \<and> body (handleInbox env req) = []
         \<and> calls (handleInbox env req) = []"
  using assms(3,4)
  by (cases "classify env a") (auto simp add: decoded_cases [OF assms(1,2)] branch_defs)

theorem unwrap_failure_noop_witness:
  "status (handleInbox (sampleEnv undoAct) postReq) = 202
   \<and> body (handleInbox (sampleEnv undoAct) postReq) = []
   \<and> calls (handleInbox (sampleEnv undoAct) postReq) = []"
  using unwrap_failure_noop [of postReq "sampleEnv undoAct" undoAct bob "''{}''" "''can not assert type''"]
  by (simp add: inbox_samples)




text \<open>
  C6. In the Public-Broadcast dialect a Create, Update, Delete or Move is handed to
  \<open>executeRelayActivity\<close> with the bytes the decoder returned, and that is the only
  call; an activity of any other type makes no call and is answered 202 with an empty
  body.
\<close>

theorem public_fan_out:
  assumes "Method req = ''POST''" and "activityDecoder env req = Inr (a, ac, bytes)"
    and "classify env a = PublicBroadcast"
  shows "(if Type a = ''Create'' \<or> Type a = ''Update'' \<or> Type a = ''Delete'' \<or> Type a = ''Move''
          then calls (handleInbox env req) = [ExecuteRelayActivity a ac bytes]
          else calls (handleInbox env req) = [] \<and> status (handleInbox env req) = 202
               \<and> body (handleInbox env req) = [])"
  using assms(3)
  by (auto simp add: decoded_cases [OF assms(1,2)] branch_defs split: option.splits)

theorem public_fan_out_witness:
  "calls (handleInbox (sampleEnv createAct) postReq) = [ExecuteRelayActivity createAct bob ''{}'']
   \<and> calls (handleInbox (sampleEnv likeAct) postReq) = []
   \<and> status (handleInbox (sampleEnv likeAct) postReq) = 202
   \<and> body (handleInbox (sampleEnv likeAct) postReq) = []"
  using public_fan_out [of postReq "sampleEnv createAct" createAct bob "''{}''"]
    public_fan_out [of postReq "sampleEnv likeAct" likeAct bob "''{}''"]
  by (simp add: inbox_samples classify_def)

text \<open>
  C7. \<open>finalizeMutuallyFollow\<close> is called only for a Relay-Directed Accept or Reject
  whose inner activity unwraps to a Follow, and for each of those it is the one call
  made. In the Unaddressed dialect, as in the Relay-Directed one, a Follow is submitted
  to \<open>executeFollowing\<close> and an Undo of a Follow to \<open>executeUnfollowing\<close>
  (each followed by a Reject request when it fails). In the Unaddressed dialect these
  are the only activities for which any call is made; an Accept or a Reject there makes
  no call and is answered 202.
\<close>

theorem finalize_only_relay_directed:
  assumes "Method req = ''POST''" and "activityDecoder env req = Inr (a, ac, bytes)"
  shows "(FinalizeMutuallyFollow inner ac' t \<in> set (calls (handleInbox env req)) \<longrightarrow>
            classify env a = RelayDirected \<and> (Type a = ''Accept'' \<or> Type a = ''Reject'')
            \<and> UnwrapInnerActivity env a = Inr inner \<and> Type inner = ''Follow''
            \<and> ac' = ac \<and> t = Type a)
       \<and> (classify env a = RelayDirected \<and> (Type a = ''Accept'' \<or> Type a = ''Reject'')
            \<and> UnwrapInnerActivity env a = Inr inner \<and> Type inner = ''Follow'' \<longrightarrow>
            calls (handleInbox env req) = [FinalizeMutuallyFollow inner ac (Type a)])
       \<and> ((classify env a = Unaddressed \<or> classify env a = RelayDirected)
            \<and> Type a = ''Follow'' \<longrightarrow>
            calls (handleInbox env req) =
              ExecuteFollowing a ac
              # (case executeFollowing env a ac of
                   None \<Rightarrow> []
                 | Some err \<Rightarrow> [ExecuteRejectRequest a ac err])
            \<and> status (handleInbox env req) = 202)
       \<and> ((classify env a = Unaddressed \<or> classify env a = RelayDirected)
            \<and> Type a = ''Undo''
            \<and> UnwrapInnerActivity env a = Inr inner \<and> Type inner = ''Follow'' \<longrightarrow>
            calls (handleInbox env req) =
              ExecuteUnfollowing inner ac
              # (case executeUnfollowing env inner ac of
                   None \<Rightarrow> []
                 | Some err \<Rightarrow> [ExecuteRejectRequest a ac err])
            \<and> status (handleInbox env req) = 202)
       \<and> (classify env a = Unaddressed \<and> calls (handleInbox env req) \<noteq> [] \<longrightarrow>
            Type a = ''Follow''
            \<or> (Type a = ''Undo''
               \<and> (\<exists>i. UnwrapInnerActivity env a = Inr i \<and> Type i = ''Follow'')))
       \<and> (classify env a = Unaddressed \<and> (Type a = ''Accept'' \<or> Type a = ''Reject'') \<longrightarrow>
            calls (handleInbox env req) = [] \<and> status (handleInbox env req) = 202
            \<and> body (handleInbox env req) = [])"
  by (cases "classify env a")
     (auto simp add: decoded_cases [OF assms(1,2)] branch_defs
       split: option.splits sum.splits if_splits object.splits)

text \<open>
  The sample Accept sent to the relay actor finalizes the follow; the same Accept
  addressed to nobody does nothing; a Follow and an Undo of a Follow addressed to
  nobody are submitted.
\<close>

theorem finalize_only_relay_directed_witness:
  "calls (handleInbox handshakeEnv postReq) = [FinalizeMutuallyFollow followAct bob ''Accept'']
   \<and> classify (sampleEnv acceptAct) acceptAct = Unaddressed
   \<and> calls (handleInbox (sampleEnv acceptAct) postReq) = []
   \<and> status (handleInbox (sampleEnv acceptAct) postReq) = 202
   \<and> classify (sampleEnv plainFollowAct) plainFollowAct = Unaddressed
   \<and> calls (handleInbox (sampleEnv plainFollowAct) postReq) = [ExecuteFollowing plainFollowAct bob]
   \<and> classify undoEnv plainUndoAct = Unaddressed
   \<and> calls (handleInbox undoEnv postReq) = [ExecuteUnfollowing followAct bob]"
proof -
  have p: "Method postReq = ''POST''"
    by (simp add: postReq_def)
  have d: "activityDecoder handshakeEnv postReq = Inr (acceptRelayAct, bob, ''{}'')"
    by (simp add: handshakeEnv_def sampleEnv_def postReq_def)
  have c: "classify handshakeEnv acceptRelayAct = RelayDirected"
    by (simp add: classify_def inbox_samples)
  have t: "Type acceptRelayAct = ''Accept''"
    by (simp add: acceptRelayAct_def sampleActivity_def)
  have u: "UnwrapInnerActivity handshakeEnv acceptRelayAct = Inr followAct"
    by (simp add: handshakeEnv_def sampleEnv_def)
  have f: "Type followAct = ''Follow''"
    by (simp add: followAct_def sampleActivity_def)
  have one: "calls (handleInbox handshakeEnv postReq) =
      [FinalizeMutuallyFollow followAct bob ''Accept'']"
    using finalize_only_relay_directed [OF p d, of followAct bob "''Accept''"] c t u f
    by simp
  have d': "activityDecoder (sampleEnv acceptAct) postReq = Inr (acceptAct, bob, ''{}'')"
    by (simp add: sampleEnv_def postReq_def)
  have c': "classify (sampleEnv acceptAct) acceptAct = Unaddressed"
    by (simp add: classify_def inbox_samples)
  have t': "Type acceptAct = ''Accept''"
    by (simp add: acceptAct_def sampleActivity_def)
  have two: "calls (handleInbox (sampleEnv acceptAct) postReq) = []
      \<and> status (handleInbox (sampleEnv acceptAct) postReq) = 202"
    using finalize_only_relay_directed [OF p d', of followAct bob "''Accept''"] c' t'
    by simp
  have d3: "activityDecoder (sampleEnv plainFollowAct) postReq = Inr (plainFollowAct, bob, ''{}'')"
    by (simp add: sampleEnv_def postReq_def)
  have c3: "classify (sampleEnv plainFollowAct) plainFollowAct = Unaddressed"
    by (simp add: classify_def inbox_samples)
  have t3: "Type plainFollowAct = ''Follow''"
    by (simp add: plainFollowAct_def sampleActivity_def)
  have e3: "executeFollowing (sampleEnv plainFollowAct) plainFollowAct bob = None"
    by (simp add: sampleEnv_def)
  have three: "calls (handleInbox (sampleEnv plainFollowAct) postReq) =
      [ExecuteFollowing plainFollowAct bob]"
    using finalize_only_relay_directed [OF p d3, of followAct bob "''Accept''"] c3 t3 e3
    by simp
  have d4: "activityDecoder undoEnv postReq = Inr (plainUndoAct, bob, ''{}'')"
    by (simp add: undoEnv_def sampleEnv_def postReq_def)
  have c4: "classify undoEnv plainUndoAct = Unaddressed"
    by (simp add: classify_def inbox_samples)
  have t4: "Type plainUndoAct = ''Undo''"
    by (simp add: plainUndoAct_def sampleActivity_def)
  have u4: "UnwrapInnerActivity undoEnv plainUndoAct = Inr followAct"
    by (simp add: undoEnv_def sampleEnv_def)
  have e4: "executeUnfollowing undoEnv followAct bob = None"
    by (simp add: undoEnv_def sampleEnv_def)
  have four: "calls (handleInbox undoEnv postReq) = [ExecuteUnfollowing followAct bob]"
    using finalize_only_relay_directed [OF p d4, of followAct bob "''Accept''"] c4 t4 u4 e4 f
    by simp
  from one c' two c3 three c4 four show ?thesis by simp
qed

text \<open>
  C8. An administrative unfollow of a domain (a POST whose body names a non-empty
  domain). If the domain is a subscriber, a Reject reply generated from a Follow whose
  object is the public-audience URI is enqueued for the subscriber's inbox, and then
  the subscriber is deleted. Otherwise, if it is a follower, the Follow's object is the
  relay actor's ID, the reply goes to the follower's inbox, and then the follower is
  deleted. In both the Follow carries the record's activity ID and actor ID. A domain
  that is neither is answered 404, with no reply and no deletion.
\<close>

theorem admin_unfollow:
  assumes "Method req = ''POST''" and "decodeDomain env (Body req) = Some domain"
    and "domain \<noteq> []"
  shows "(case SelectSubscriber env domain of
            Some sub \<Rightarrow>
              (\<exists>a. handleAdminUnfollow env req =
                     (200, SuccessBody ''subscriber'',
                      [EnqueueRegisterActivity (InboxURL sub) (GenerateReply a ''Reject''),
                       DelSubscriber (Domain sub)])
                   \<and> Type a = ''Follow'' \<and> Object a = ObjString asPublic
                   \<and> ID a = ActivityID sub \<and> Actor a = ActorID sub)
          | None \<Rightarrow>
              (case SelectFollower env domain of
                 Some fol \<Rightarrow>
                   (\<exists>a. handleAdminUnfollow env req =
                          (200, SuccessBody ''follower'',
                           [EnqueueRegisterActivity (InboxURL fol) (GenerateReply a ''Reject''),
                            DelFollower (Domain fol)])
                        \<and> Type a = ''Follow'' \<and> Object a = ObjString (adminRelayActorID env)
                        \<and> ID a = ActivityID fol \<and> Actor a = ActorID fol)
               | None \<Rightarrow>
                   fst (handleAdminUnfollow env req) = 404
                   \<and> snd (snd (handleAdminUnfollow env req)) = []))"
  using assms
  by (simp add: handleAdminUnfollow_def asPublic_def Let_def split: option.splits)

text \<open>The three cases on the sample relay state.\<close>

theorem admin_unfollow_witness:
  "(\<exists>a. handleAdminUnfollow adminEnv (adminReq ''sub.example'') =
          (200, SuccessBody ''subscriber'',
           [EnqueueRegisterActivity ''https://sub.example/inbox'' (GenerateReply a ''Reject''),
            DelSubscriber ''sub.example''])
        \<and> Object a = ObjString asPublic)
   \<and> (\<exists>a. handleAdminUnfollow adminEnv (adminReq ''fol.example'') =
          (200, SuccessBody ''follower'',
           [EnqueueRegisterActivity ''https://fol.example/inbox'' (GenerateReply a ''Reject''),
            DelFollower ''fol.example''])
        \<and> Object a = ObjString relayID)
   \<and> fst (handleAdminUnfollow adminEnv (adminReq ''other.example'')) = 404
   \<and> snd (snd (handleAdminUnfollow adminEnv (adminReq ''other.example''))) = []"
proof -
  have p: "Method (adminReq d) = ''POST''" for d
    by (simp add: adminReq_def)
  have d: "decodeDomain adminEnv (Body (adminReq ''sub.example'')) = Some ''sub.example''"
    "decodeDomain adminEnv (Body (adminReq ''fol.example'')) = Some ''fol.example''"
    "decodeDomain adminEnv (Body (adminReq ''other.example'')) = Some ''other.example''"
    by (simp_all add: adminReq_def adminEnv_def)
  have s: "SelectSubscriber adminEnv ''sub.example'' = Some subRecord"
    "SelectSubscriber adminEnv ''fol.example'' = None"
    "SelectSubscriber adminEnv ''other.example'' = None"
    "SelectFollower adminEnv ''fol.example'' = Some folRecord"
    "SelectFollower adminEnv ''other.example'' = None"
    "adminRelayActorID adminEnv = relayID"
    by (simp_all add: adminEnv_def)
  have r: "InboxURL subRecord = ''https://sub.example/inbox''"
    "Domain subRecord = ''sub.example''"
    "InboxURL folRecord = ''https://fol.example/inbox''"
    "Domain folRecord = ''fol.example''"
    by (simp_all add: subRecord_def folRecord_def)
  have one: "\<exists>a. handleAdminUnfollow adminEnv (adminReq ''sub.example'') =
          (200, SuccessBody ''subscriber'',
           [EnqueueRegisterActivity ''https://sub.example/inbox'' (GenerateReply a ''Reject''),
            DelSubscriber ''sub.example''])
        \<and> Object a = ObjString asPublic"
    using admin_unfollow [OF p d(1)] s r by auto
  have two: "\<exists>a. handleAdminUnfollow adminEnv (adminReq ''fol.example'') =
          (200, SuccessBody ''follower'',
           [EnqueueRegisterActivity ''https://fol.example/inbox'' (GenerateReply a ''Reject''),
            DelFollower ''fol.example''])
        \<and> Object a = ObjString relayID"
    using admin_unfollow [OF p d(2)] s r by auto
  have three: "fst (handleAdminUnfollow adminEnv (adminReq ''other.example'')) = 404
   \<and> snd (snd (handleAdminUnfollow adminEnv (adminReq ''other.example''))) = []"
    using admin_unfollow [OF p d(3)] s by simp
  from one two three show ?thesis by blast
qed

lemma parseCreatedAt_Some:
  "parseCreatedAt tp fs s = Some t \<Longrightarrow> \<exists>f. f \<in> set fs \<and> tp f s = Some t"
  by (induction fs) (auto split: option.splits)

lemma timeSub_in_range:
  "0 \<le> timeSub t u \<Longrightarrow> timeSub t u \<le> 86400 * secondsNs \<Longrightarrow> timeSub t u = t - u"
  by (auto simp add: timeSub_def maxDuration_def minDuration_def secondsNs_def split: if_splits)

lemma routed_clock:
  "routed (env\<lparr> timeParse := tp, timeNow := now \<rparr>) dl a ac bytes = routed env dl a ac bytes"
  by (cases dl) (auto simp add: branch_defs split: sum.splits option.splits object.splits)

lemma classify_clock:
  "classify (env\<lparr> timeParse := tp, timeNow := now \<rparr>) a = classify env a"
  by (simp add: classify_def)

lemma handleInbox_clock:
  "status (handleInbox (env\<lparr> timeParse := tp, timeNow := now \<rparr>) req) = status (handleInbox env req)
   \<and> body (handleInbox (env\<lparr> timeParse := tp, timeNow := now \<rparr>) req) = body (handleInbox env req)
   \<and> calls (handleInbox (env\<lparr> timeParse := tp, timeNow := now \<rparr>) req) = calls (handleInbox env req)"
proof (cases "Method req = ''POST''")
  case False
  then show ?thesis by (simp add: handleInbox_def respond_def)
next
  case post: True
  show ?thesis
  proof (cases "activityDecoder env req")
    case (Inl err)
    with post show ?thesis by (simp add: handleInbox_def respond_def)
  next
    case (Inr t)
    obtain a ac bytes where dec: "activityDecoder env req = Inr (a, ac, bytes)"
      using Inr by (cases t) auto
    then have dec': "activityDecoder (env\<lparr> timeParse := tp, timeNow := now \<rparr>) req = Inr (a, ac, bytes)"
      by simp
    show ?thesis
      by (simp add: decoded_cases [OF post dec] decoded_cases [OF post dec'] routed_clock
          classify_clock)
  qed
qed

lemma recordDelayMetrics_Some:
  assumes "recordDelayMetrics tp a actorURL receivedAt = Some r"
  shows "(\<exists>published f u.
            actorURL = Some u \<and> InstanceHost r = Host u
            \<and> published \<noteq> [] \<and> f \<in> set formats \<and> tp f published = Some (CreatedAt r)
            \<and> (if Published a \<noteq> [] then published = Published a
               else \<exists>obj. Object a = ObjMap obj \<and> obj ''published'' = Some (JString published)))
         \<and> ReceivedAt r = receivedAt
         \<and> DelaySeconds r = receivedAt - CreatedAt r
         \<and> 0 \<le> DelaySeconds r \<and> DelaySeconds r \<le> 86400 * secondsNs
         \<and> NoteID r =
             (case Object a of
                ObjMap obj \<Rightarrow>
                  (case obj ''id'' of
                     Some (JString i) \<Rightarrow> if i = [] then ID a else i
                   | _ \<Rightarrow> ID a)
              | ObjString s \<Rightarrow> if s = [] then ID a else s
              | ObjOther \<Rightarrow> ID a)"
proof -
  obtain u where u: "actorURL = Some u"
    using assms by (cases actorURL) (simp_all add: recordDelayMetrics_def)
  define published where "published =
     (if Published a \<noteq> [] then Published a
      else case Object a of
             ObjMap obj \<Rightarrow> (case obj ''published'' of Some (JString p) \<Rightarrow> p | _ \<Rightarrow> [])
           | _ \<Rightarrow> [])"
  define nid where "nid =
     (case Object a of
        ObjMap obj \<Rightarrow>
          (case obj ''id'' of Some (JString i) \<Rightarrow> if i = [] then ID a else i | _ \<Rightarrow> ID a)
      | ObjString s \<Rightarrow> if s = [] then ID a else s
      | ObjOther \<Rightarrow> ID a)"
  have eq: "recordDelayMetrics tp a (Some u) receivedAt =
     (if published = [] then None
      else case parseCreatedAt tp formats published of
             None \<Rightarrow> None
           | Some createdAt \<Rightarrow>
               if timeSub receivedAt createdAt < 0
                  \<or> timeSub receivedAt createdAt > 86400 * secondsNs then None
               else Some \<lparr> NoteID = nid, CreatedAt = createdAt, ReceivedAt = receivedAt,
                            DelaySeconds = timeSub receivedAt createdAt, InstanceHost = Host u \<rparr>)"
    unfolding recordDelayMetrics_def published_def nid_def
    by (auto simp add: Let_def split: object.splits option.splits jvalue.splits)
  from assms u eq have ne: "published \<noteq> []"
    by (auto split: if_splits)
  from assms u eq ne obtain createdAt where
    c: "parseCreatedAt tp formats published = Some createdAt"
    by (auto split: option.splits)
  from assms u eq ne c have rng: "0 \<le> timeSub receivedAt createdAt"
      "timeSub receivedAt createdAt \<le> 86400 * secondsNs"
    and r: "r = \<lparr> NoteID = nid, CreatedAt = createdAt, ReceivedAt = receivedAt,
                 DelaySeconds = timeSub receivedAt createdAt, InstanceHost = Host u \<rparr>"
    by (auto split: if_splits)
  from c obtain f where f: "f \<in> set formats" "tp f published = Some createdAt"
    using parseCreatedAt_Some by blast
  have src: "if Published a \<noteq> [] then published = Published a
      else \<exists>obj. Object a = ObjMap obj \<and> obj ''published'' = Some (JString published)"
    using ne unfolding published_def
    by (auto split: object.splits option.splits jvalue.splits)
  have first: "\<exists>published f u.
            actorURL = Some u \<and> InstanceHost r = Host u
            \<and> published \<noteq> [] \<and> f \<in> set formats \<and> tp f published = Some (CreatedAt r)
            \<and> (if Published a \<noteq> [] then published = Published a
               else \<exists>obj. Object a = ObjMap obj \<and> obj ''published'' = Some (JString published))"
    using u ne f src r by (intro exI [of _ published] exI [of _ f] exI [of _ u]) simp
  have d: "DelaySeconds r = receivedAt - CreatedAt r"
    using timeSub_in_range [OF rng] r by simp
  have n: "NoteID r = nid"
    using r by simp
  show ?thesis
    using first d rng r n unfolding nid_def by simp
qed

lemma handleInbox_delay:
  assumes "Method req = ''POST''" and "activityDecoder env req = Inr (a, ac, bytes)"
  shows "delay (handleInbox env req) =
         recordDelayMetrics (timeParse env) a (urlParse env (Actor a)) (timeNow env)"
  using handleInbox_routed [OF assms] by (simp add: respond_def)

text \<open>
  C9. For a decoded activity, a delay record is handed to the recorder only when: the
  sender's URL parsed; a non-empty published timestamp was found, the activity's own
  if it has one and otherwise the \<open>published\<close> string of its object; that timestamp
  parses in one of the four formats; and the delay, receipt time minus published time,
  is between 0 and 86400 seconds inclusive (in nanoseconds here). The record's note ID
  is the object's \<open>id\<close>, or the object itself when it is a string, and the
  activity's ID when that is missing or empty. Status, body and calls of the response
  are the same whatever the time parser and the clock are, so whatever became of the
  delay record.
\<close>

theorem delay_metrics:
  assumes "Method req = ''POST''" and "activityDecoder env req = Inr (a, ac, bytes)"
  shows "(delay (handleInbox env req) = Some r \<longrightarrow>
            (\<exists>published f u.
               urlParse env (Actor a) = Some u \<and> InstanceHost r = Host u
               \<and> published \<noteq> [] \<and> f \<in> set formats
               \<and> timeParse env f published = Some (CreatedAt r)
               \<and> (if Published a \<noteq> [] then published = Published a
                  else \<exists>obj. Object a = ObjMap obj
                         \<and> obj ''published'' = Some (JString published)))
            \<and> ReceivedAt r = timeNow env
            \<and> DelaySeconds r = timeNow env - CreatedAt r
            \<and> 0 \<le> DelaySeconds r \<and> DelaySeconds r \<le> 86400 * secondsNs
            \<and> NoteID r =
                (case Object a of
                   ObjMap obj \<Rightarrow>
                     (case obj ''id'' of
                        Some (JString i) \<Rightarrow> if i = [] then ID a else i
                      | _ \<Rightarrow> ID a)
                 | ObjString s \<Rightarrow> if s = [] then ID a else s
                 | ObjOther \<Rightarrow> ID a))
         \<and> length formats = 4
         \<and> status (handleInbox (env\<lparr> timeParse := tp, timeNow := now \<rparr>) req) =
             status (handleInbox env req)
         \<and> body (handleInbox (env\<lparr> timeParse := tp, timeNow := now \<rparr>) req) =
             body (handleInbox env req)
         \<and> calls (handleInbox (env\<lparr> timeParse := tp, timeNow := now \<rparr>) req) =
             calls (handleInbox env req)"
proof (intro conjI)
  show "length formats = 4"
    by (simp add: formats_def)
next
  show "status (handleInbox (env\<lparr> timeParse := tp, timeNow := now \<rparr>) req) =
      status (handleInbox env req)"
    by (simp add: handleInbox_clock)
next
  show "body (handleInbox (env\<lparr> timeParse := tp, timeNow := now \<rparr>) req) =
      body (handleInbox env req)"
    by (simp add: handleInbox_clock)
next
  show "calls (handleInbox (env\<lparr> timeParse := tp, timeNow := now \<rparr>) req) =
      calls (handleInbox env req)"
    by (simp add: handleInbox_clock)
qed (simp only: handleInbox_delay [OF assms], rule impI, erule recordDelayMetrics_Some)

text \<open>
  The sample Create, published at 2024-01-01T00:00:00Z in its object and received five
  seconds later: the record carries the object's id and a delay of five seconds.
\<close>

theorem delay_metrics_witness:
  "delay (handleInbox clockEnv postReq) = Some publishedRecord
   \<and> ReceivedAt publishedRecord = timeNow clockEnv
   \<and> DelaySeconds publishedRecord = timeNow clockEnv - CreatedAt publishedRecord
   \<and> 0 \<le> DelaySeconds publishedRecord
   \<and> DelaySeconds publishedRecord \<le> 86400 * secondsNs
   \<and> NoteID publishedRecord = ''https://a.example/notes/9''"
proof -
  have p: "Method postReq = ''POST''"
    by (simp add: postReq_def)
  have d: "activityDecoder clockEnv postReq = Inr (publishedAct, bob, ''{}'')"
    by (simp add: clockEnv_def sampleEnv_def postReq_def)
  have o: "Object publishedAct = ObjMap noteObject"
    by (simp add: publishedAct_def sampleActivity_def)
  have i: "noteObject ''id'' = Some (JString ''https://a.example/notes/9'')"
    by (simp add: noteObject_def)
  have e: "delay (handleInbox clockEnv postReq) = Some publishedRecord"
    unfolding handleInbox_delay [OF p d]
    by (simp add: recordDelayMetrics_def Let_def formats_def RFC3339_def timeSub_def
        maxDuration_def minDuration_def secondsNs_def publishedRecord_def clockEnv_def
        sampleEnv_def publishedAct_def sampleActivity_def noteObject_def)
  from delay_metrics [OF p d, where r = publishedRecord and tp = "timeParse clockEnv"
      and now = "timeNow clockEnv"] e o i
  show ?thesis
    by simp
qed

lemma int64_id: "- (2 ^ 63) \<le> x \<Longrightarrow> x < 2 ^ 63 \<Longrightarrow> int64 x = x"
  by (simp add: int64_def)

lemma quot_nonneg: "0 \<le> a \<Longrightarrow> quot a 60 = a div 60"
  by (simp add: quot_def)

lemma historyLoop_timestamps:
  assumes "0 \<le> cur" and "cur < 2 ^ 63"
  shows "- 1 \<le> i \<Longrightarrow> i < 2 ^ 31 \<Longrightarrow> nat (i + 1) = n \<Longrightarrow>
         map Timestamp (historyLoop env cur i acc) =
         map Timestamp acc @ map (\<lambda>j. cur - j * 60) (rev [0..i])"
proof (induction n arbitrary: i acc)
  case 0
  then have "i = - 1" by simp
  then show ?case by (simp add: historyLoop.simps)
next
  case (Suc n)
  then have i: "0 \<le> i" "i < 2 ^ 31" by simp_all
  have a: "int64 (i * 60) = i * 60"
    using i by (intro int64_id) simp_all
  have b: "int64 (cur - i * 60) = cur - i * 60"
    using i assms by (intro int64_id) simp_all
  have c: "int64 (i - 1) = i - 1"
    using i by (intro int64_id) simp_all
  have up: "[0..i] = [0..i - 1] @ [i]"
    using i by (simp add: upto_rec2)
  have ih: "map Timestamp (historyLoop env cur (i - 1) acc') =
         map Timestamp acc' @ map (\<lambda>j. cur - j * 60) (rev [0..i - 1])" for acc'
    using Suc.prems i by (intro Suc.IH) simp_all
  show ?case
    using i by (subst historyLoop.simps) (simp add: a b c up ih Let_def)
qed

lemma getDeliveryStats_timestamps:
  assumes "0 \<le> nowUnix env" and "nowUnix env < 2 ^ 63" and "1 \<le> hours" and "hours \<le> 24"
  shows "map Timestamp (History (GetDeliveryStats env hours)) =
         map (\<lambda>j. nowUnix env div 60 * 60 - j * 60) (rev [0..hours * 60 - 1])"
proof -
  have le: "nowUnix env div 60 * 60 \<le> nowUnix env"
    using assms(1) by presburger
  have cur: "int64 (quot (nowUnix env) 60 * 60) = nowUnix env div 60 * 60"
    using assms(1,2) le by (simp add: quot_nonneg int64_id)
  have nn: "0 \<le> nowUnix env div 60 * 60"
    using assms(1) by simp
  have lt: "nowUnix env div 60 * 60 < 2 ^ 63"
    using le assms(2) by linarith
  have b: "int64 (hours * 60) = hours * 60"
    using assms(3,4) by (intro int64_id) simp_all
  have i: "int64 (hours * 60 - 1) = hours * 60 - 1"
    using assms(3,4) by (intro int64_id) simp_all
  have "map Timestamp (historyLoop env (nowUnix env div 60 * 60) (hours * 60 - 1) []) =
        map Timestamp ([] :: DeliveryStats list)
        @ map (\<lambda>j. nowUnix env div 60 * 60 - j * 60) (rev [0..hours * 60 - 1])"
    by (rule historyLoop_timestamps [OF nn lt, where n = "nat (hours * 60)"])
       (use assms(3,4) in simp_all)
  then show ?thesis
    by (simp add: GetDeliveryStats_def Let_def cur b i)
qed

lemma queryHours_range: "1 \<le> queryHours env req \<and> queryHours env req \<le> 24"
  by (simp add: queryHours_def Let_def split: option.splits)

lemma queryHours_value:
  "queryHours env req =
     (case Query req ''hours'' of
        None \<Rightarrow> 1
      | Some s \<Rightarrow>
          (case Atoi env s of
             None \<Rightarrow> 1
           | Some h \<Rightarrow> if s \<noteq> [] \<and> 0 < h \<and> h \<le> 24 then h else 1))"
  by (simp add: queryHours_def Let_def split: option.splits)

lemma rev_upto_nth:
  "0 \<le> m \<Longrightarrow> k < nat m \<Longrightarrow> rev [0..m - 1] ! k = m - 1 - int k"
  by (simp add: rev_nth)

lemma history_props:
  assumes "0 \<le> nowUnix env" and "nowUnix env < 2 ^ 63" and "1 \<le> hours" and "hours \<le> 24"
  defines "H \<equiv> History (GetDeliveryStats env hours)"
  shows "length H = nat (hours * 60)"
    and "k < length H \<Longrightarrow>
         Timestamp (H ! k) = nowUnix env div 60 * 60 - 60 * (hours * 60 - 1 - int k)"
proof -
  have m: "map Timestamp H =
      map (\<lambda>j. nowUnix env div 60 * 60 - j * 60) (rev [0..hours * 60 - 1])"
    unfolding H_def using assms(1-4) by (rule getDeliveryStats_timestamps)
  have "length (map Timestamp H) = nat (hours * 60)"
    unfolding m using assms(3) by simp
  then show len: "length H = nat (hours * 60)" by simp
  assume k: "k < length H"
  have "Timestamp (H ! k) = map Timestamp H ! k"
    using k by simp
  also have "\<dots> = nowUnix env div 60 * 60 - (rev [0..hours * 60 - 1] ! k) * 60"
    unfolding m using k len assms(3) by (subst nth_map) simp_all
  also have "rev [0..hours * 60 - 1] ! k = hours * 60 - 1 - int k"
    using k len assms(3) by (intro rev_upto_nth) simp_all
  finally show "Timestamp (H ! k) = nowUnix env div 60 * 60 - 60 * (hours * 60 - 1 - int k)"
    by simp
qed

text \<open>
  C10. The \<open>hours\<close> parameter of the delivery-stats endpoint ends between 1 and 24:
  it is the parsed value when the parameter is present, non-empty, an integer, positive
  and at most 24, and 1 otherwise. With the clock at a Unix time that is not negative,
  the history \<open>GetDeliveryStats\<close> returns for it has \<open>hours * 60\<close> entries; each
  entry's timestamp is 60 seconds after the one before it, so they ascend strictly; the
  last is the start of the current minute. A GET request is answered with the
  marshalled statistics of exactly that call.
\<close>

theorem delivery_stats_history:
  fixes env :: stats_env and req :: request
  assumes "0 \<le> nowUnix env" and "nowUnix env < 2 ^ 63"
  defines "H \<equiv> History (GetDeliveryStats env (queryHours env req))"
  shows "1 \<le> queryHours env req \<and> queryHours env req \<le> 24
       \<and> queryHours env req =
           (case Query req ''hours'' of
              None \<Rightarrow> 1
            | Some s \<Rightarrow>
                (case Atoi env s of
                   None \<Rightarrow> 1
                 | Some h \<Rightarrow> if s \<noteq> [] \<and> 0 < h \<and> h \<le> 24 then h else 1))
       \<and> length H = nat (queryHours env req * 60)
       \<and> (\<forall>k. Suc k < length H \<longrightarrow> Timestamp (H ! Suc k) = Timestamp (H ! k) + 60)
       \<and> sorted_wrt (<) (map Timestamp H)
       \<and> Timestamp (last H) = nowUnix env div 60 * 60
       \<and> Timestamp (last H) \<le> nowUnix env \<and> nowUnix env < Timestamp (last H) + 60
       \<and> (Method req = ''GET'' \<longrightarrow>
            handleDeliveryStats env req =
              (case jsonMarshal env (GetDeliveryStats env (queryHours env req)) of
                 None \<Rightarrow> (500, [])
               | Some response \<Rightarrow> (200, response)))"
proof -
  define hours where "hours = queryHours env req"
  have r: "1 \<le> hours" "hours \<le> 24"
    using queryHours_range [of env req] by (simp_all add: hours_def)
  have H: "H = History (GetDeliveryStats env hours)"
    by (simp add: H_def hours_def)
  have len: "length H = nat (hours * 60)"
    unfolding H using assms(1,2) r by (rule history_props(1))
  have ts: "Timestamp (H ! k) = nowUnix env div 60 * 60 - 60 * (hours * 60 - 1 - int k)"
    if "k < length H" for k
    using that unfolding H by (rule history_props(2) [OF assms(1,2) r])
  have step: "\<forall>k. Suc k < length H \<longrightarrow> Timestamp (H ! Suc k) = Timestamp (H ! k) + 60"
    by (simp add: ts)
  have asc: "sorted_wrt (<) (map Timestamp H)"
    by (simp add: sorted_wrt_iff_nth_less ts)
  have ne: "H \<noteq> []"
    using len r by auto
  have "Timestamp (last H) = Timestamp (H ! (length H - 1))"
    using ne by (simp add: last_conv_nth)
  also have "\<dots> = nowUnix env div 60 * 60 - 60 * (hours * 60 - 1 - int (length H - 1))"
    using ne by (intro ts) simp
  also have "\<dots> = nowUnix env div 60 * 60"
    using len r by simp
  finally have lst: "Timestamp (last H) = nowUnix env div 60 * 60" .
  have minute: "nowUnix env div 60 * 60 \<le> nowUnix env"
      "nowUnix env < nowUnix env div 60 * 60 + 60"
    using assms(1) by presburger+
  have get: "Method req = ''GET'' \<longrightarrow>
      handleDeliveryStats env req =
        (case jsonMarshal env (GetDeliveryStats env (queryHours env req)) of
           None \<Rightarrow> (500, [])
         | Some response \<Rightarrow> (200, response))"
    by (simp add: handleDeliveryStats_def Let_def)
  show ?thesis
    using r len step asc lst minute get queryHours_value [of env req]
    unfolding hours_def by simp
qed

text \<open>
  Two hours are asked for at 00:02:05: 120 entries, the last one at 00:02:00. Asking for
  48 hours gives one hour.
\<close>

theorem delivery_stats_history_witness:
  "queryHours statsEnv (statsReq ''2'') = 2
   \<and> length (History (GetDeliveryStats statsEnv 2)) = 120
   \<and> Timestamp (last (History (GetDeliveryStats statsEnv 2))) = 1704067320
   \<and> queryHours statsEnv (statsReq ''48'') = 1
   \<and> length (History (GetDeliveryStats statsEnv 1)) = 60"
proof -
  have n: "0 \<le> nowUnix statsEnv" "nowUnix statsEnv < 2 ^ 63" "nowUnix statsEnv = 1704067325"
    by (simp_all add: statsEnv_def)
  have q: "Query (statsReq h) ''hours'' = Some h" for h
    by (simp add: statsReq_def)
  have a: "Atoi statsEnv ''2'' = Some 2" "Atoi statsEnv ''48'' = Some 48"
    by (simp_all add: statsEnv_def)
  have two: "queryHours statsEnv (statsReq ''2'') = 2"
    using delivery_stats_history [OF n(1,2), where req = "statsReq ''2''"] q a by simp
  have one: "queryHours statsEnv (statsReq ''48'') = 1"
    using delivery_stats_history [OF n(1,2), where req = "statsReq ''48''"] q a by simp
  have l2: "length (History (GetDeliveryStats statsEnv 2)) = 120
      \<and> Timestamp (last (History (GetDeliveryStats statsEnv 2))) = 1704067320"
    using delivery_stats_history [OF n(1,2), where req = "statsReq ''2''"] two n(3) by simp
  have l1: "length (History (GetDeliveryStats statsEnv 1)) = 60"
    using delivery_stats_history [OF n(1,2), where req = "statsReq ''48''"] one by simp
  from two one l2 l1 show ?thesis by simp
qed

end
